theory Spec2Isabelle
  imports Main
begin

section \<open>Go strings and runes\<close>

text \<open>
  A Go string is a sequence of bytes; \<^typ>\<open>string\<close> (a list of 8-bit characters) is
  exactly that.  A rune is a Unicode code point, an \<open>int32\<close> in Go and an \<^typ>\<open>int\<close> here.
  \<open>for i, v := range str\<close> decodes the UTF-8 sequence that starts at byte 0: \<open>v\<close> is its
  code point, or \<open>0xFFFD\<close> when the bytes are not a valid encoding.
\<close>

type_synonym rune = int

definition RuneError :: rune where
  "RuneError = 0xFFFD"

definition continuation :: "int \<Rightarrow> bool" where
  "continuation b \<longleftrightarrow> 0x80 \<le> b \<and> b \<le> 0xBF"

text \<open>The rune that \<open>range\<close> yields in its first iteration.\<close>

fun decodeRune :: "string \<Rightarrow> rune" where
  "decodeRune [] = RuneError"
| "decodeRune (c0 # cs) =
     (let b0 = of_char c0 :: int in
      if b0 < 0x80 then b0
      else if b0 < 0xC2 then RuneError
      else if b0 < 0xE0 then
        (case cs of
           c1 # _ \<Rightarrow>
             (let b1 = of_char c1 :: int in
              if continuation b1 then (b0 - 0xC0) * 64 + (b1 - 0x80) else RuneError)
         | _ \<Rightarrow> RuneError)
      else if b0 < 0xF0 then
        (case cs of
           c1 # c2 # _ \<Rightarrow>
             (let b1 = of_char c1 :: int; b2 = of_char c2 :: int;
                  lo = (if b0 = 0xE0 then 0xA0 else 0x80);
                  hi = (if b0 = 0xED then 0x9F else 0xBF) in
              if lo \<le> b1 \<and> b1 \<le> hi \<and> continuation b2
              then (b0 - 0xE0) * 4096 + (b1 - 0x80) * 64 + (b2 - 0x80)
              else RuneError)
         | _ \<Rightarrow> RuneError)
      else if b0 < 0xF5 then
        (case cs of
           c1 # c2 # c3 # _ \<Rightarrow>
             (let b1 = of_char c1 :: int; b2 = of_char c2 :: int; b3 = of_char c3 :: int;
                  lo = (if b0 = 0xF0 then 0x90 else 0x80);
                  hi = (if b0 = 0xF4 then 0x8F else 0xBF) in
              if lo \<le> b1 \<and> b1 \<le> hi \<and> continuation b2 \<and> continuation b3
              then (b0 - 0xF0) * 262144 + (b1 - 0x80) * 4096 + (b2 - 0x80) * 64 + (b3 - 0x80)
              else RuneError)
         | _ \<Rightarrow> RuneError)
      else RuneError)"

text \<open>
  The conversion \<open>string(r)\<close> of a rune: its UTF-8 encoding, and the encoding of
  \<open>0xFFFD\<close> for a value that is no code point.
\<close>

definition string_of_rune :: "rune \<Rightarrow> string" where
  "string_of_rune r0 =
     (let r = (if r0 < 0 \<or> 0x10FFFF < r0 \<or> (0xD800 \<le> r0 \<and> r0 \<le> 0xDFFF)
               then RuneError else r0) in
      if r < 0x80 then [char_of r]
      else if r < 0x800 then [char_of (0xC0 + r div 64), char_of (0x80 + r mod 64)]
      else if r < 0x10000 then
        [char_of (0xE0 + r div 4096), char_of (0x80 + (r div 64) mod 64),
         char_of (0x80 + r mod 64)]
      else
        [char_of (0xF0 + r div 262144), char_of (0x80 + (r div 4096) mod 64),
         char_of (0x80 + (r div 64) mod 64), char_of (0x80 + r mod 64)])"

text \<open>
  \<open>unicode.ToUpper\<close>: the ASCII range is handled in place; beyond it the standard
  library consults its case tables, which are a parameter here.
\<close>

definition ToUpper :: "(rune \<Rightarrow> rune) \<Rightarrow> rune \<Rightarrow> rune" where
  "ToUpper To_UpperCase r =
     (if r \<le> 0x7F then (if 0x61 \<le> r \<and> r \<le> 0x7A then r - 0x20 else r)
      else To_UpperCase r)"

section \<open>Presenting an error: \<open>formatErr\<close> and \<open>upcaseInitial\<close>\<close>

text \<open>
  \<open>formatErr\<close> looks at an error through a type switch only: a \<open>*errors.Error\<close> is
  presented by its \<open>Detail\<close> field, every other error by what \<open>Error()\<close> returns.
\<close>

datatype error =
    errors_Error (Detail: string)
  | other_error (Error: string)

text \<open>
  \<open>upcaseInitial\<close> returns inside the first iteration of its loop, where \<open>i = 0\<close>;
  \<open>str[i+1:]\<close> drops one byte.
\<close>

definition upcaseInitial :: "(rune \<Rightarrow> rune) \<Rightarrow> string \<Rightarrow> string" where
  "upcaseInitial up str =
     (case str of
        [] \<Rightarrow> []
      | _ # _ \<Rightarrow> string_of_rune (ToUpper up (decodeRune str)) @ drop (0 + 1) str)"

fun formatErr :: "(rune \<Rightarrow> rune) \<Rightarrow> error \<Rightarrow> string" where
  "formatErr up (errors_Error detail) = upcaseInitial up detail"
| "formatErr up (other_error msg) = upcaseInitial up msg"

section \<open>Times and durations\<close>

text \<open>
  A \<open>time.Time\<close> is an instant with nanosecond resolution and a \<open>time.Duration\<close> a
  number of nanoseconds; both are integers here (nanoseconds since the Unix epoch for an
  instant).  \<open>Unix()\<close> is the number of whole seconds since the epoch, rounded down.
\<close>

type_synonym Time = int
type_synonym Duration = int

definition Second :: Duration where
  "Second = 1000000000"

definition Minute :: Duration where
  "Minute = 60 * Second"

definition Hour :: Duration where
  "Hour = 60 * Minute"

definition Add :: "Time \<Rightarrow> Duration \<Rightarrow> Time" where
  "Add t d = t + d"

definition Before :: "Time \<Rightarrow> Time \<Rightarrow> bool" where
  "Before t u \<longleftrightarrow> t < u"

definition Unix :: "Time \<Rightarrow> int" where
  "Unix t = t div Second"

section \<open>Accounts, tokens and the process-wide auth options\<close>

text \<open>
  Modelled from the spec: the types \<open>auth.Token\<close>, \<open>auth.Account\<close> and \<open>auth.Options\<close>
  are declared in \<open>micro.dev/v4/service/auth\<close>, which is not among the sources.  The
  records hold the fields the spec lists and the code reads (\<open>tok.RefreshToken\<close>,
  \<open>tok.Expiry\<close>, \<open>acc.ID\<close>, \<open>acc.Secret\<close>, \<open>opts.ID\<close>, \<open>opts.Secret\<close>,
  \<open>Options().Token\<close>).  A nil \<open>*Token\<close> is \<^term>\<open>None\<close>.
\<close>

record token =
  AccessToken :: string
  RefreshToken :: string
  Expiry :: Time

record account =
  acc_ID :: string
  acc_Secret :: string

record Options =
  ID :: string
  Secret :: string
  Issuer :: string
  Token :: "token option"

text \<open>
  The errors of the token lifecycle.  The code tests an error for being nil and for being
  the value \<open>auth.ErrInvalidToken\<close>, nothing else.
\<close>

datatype auth_error = ErrInvalidToken | ErrOther string

text \<open>The options the code passes: to \<open>Init\<close>, to \<open>auth.Token\<close> and to \<open>auth.Generate\<close>.\<close>

datatype Option =
    auth_ClientToken token
  | auth_Issuer string
  | auth_Credentials string string

datatype TokenOption =
    auth_WithToken string
  | auth_WithTokenIssuer string
  | auth_WithExpiry Duration
  | auth_WithCredentials string string

datatype GenerateOption =
    auth_WithType string
  | auth_WithScopes "string list"

text \<open>
  Modelled from the spec: \<open>auth.DefaultAuth.Init\<close> and its option constructors belong to
  the absent \<open>auth\<close> package.  The spec calls them \<open>install(token)\<close> and
  \<open>install(credentials, token)\<close>: each option replaces the field it names, whole.
\<close>

fun apply_Option :: "Option \<Rightarrow> Options \<Rightarrow> Options" where
  "apply_Option (auth_ClientToken tok) opts = opts\<lparr>Token := Some tok\<rparr>"
| "apply_Option (auth_Issuer ns) opts = opts\<lparr>Issuer := ns\<rparr>"
| "apply_Option (auth_Credentials i s) opts = opts\<lparr>ID := i, Secret := s\<rparr>"

section \<open>The world around the lifecycle\<close>

text \<open>
  Every call that leaves the process is recorded, in order: an exchange with the Auth
  Provider (\<open>auth.Token\<close>), an account generation (\<open>auth.Generate\<close>), a write to the
  Credential Store (\<open>clitoken.Save\<close>).
\<close>

datatype call =
    Token_call "TokenOption list"
  | Generate_call string "GenerateOption list"
  | Save_call string token

text \<open>
  What the collaborators answer is the environment.  The Auth Provider may answer the
  same request differently over time, so its answers depend on the calls made so far.
  A failed \<open>auth.Token\<close> or \<open>auth.Generate\<close> returns a nil pointer with its error.
\<close>

record env =
  util_GetEnv :: "auth_error + string"
  namespace_Get :: "string \<Rightarrow> auth_error + string"
  clitoken_Get :: "auth_error + token"
  Save_error :: "token \<Rightarrow> auth_error option"
  uuid_New :: string
  provider_Token :: "call list \<Rightarrow> TokenOption list \<Rightarrow> auth_error + token"
  provider_Generate :: "call list \<Rightarrow> string \<Rightarrow> GenerateOption list \<Rightarrow> auth_error + account"

record world =
  options :: Options
  store :: "string \<rightharpoonup> token"
  calls :: "call list"

definition DefaultAuth_Init :: "Option list \<Rightarrow> world \<Rightarrow> world" where
  "DefaultAuth_Init os w = w\<lparr>options := fold apply_Option os (options w)\<rparr>"

definition auth_Token :: "env \<Rightarrow> TokenOption list \<Rightarrow> world \<Rightarrow> (auth_error + token) \<times> world" where
  "auth_Token e topts w =
     (provider_Token e (calls w) topts, w\<lparr>calls := calls w @ [Token_call topts]\<rparr>)"

definition auth_Generate ::
  "env \<Rightarrow> string \<Rightarrow> GenerateOption list \<Rightarrow> world \<Rightarrow> (auth_error + account) \<times> world" where
  "auth_Generate e name gopts w =
     (provider_Generate e (calls w) name gopts,
      w\<lparr>calls := calls w @ [Generate_call name gopts]\<rparr>)"

text \<open>
  Modelled from the spec: \<open>clitoken.Save\<close> is in \<open>micro.dev/v4/cmd/cli/token\<close>, not
  among the sources.  The spec gives \<open>save(environment, Token) -> ok | error\<close>, keyed by
  environment name, one Token per environment: a successful save replaces the entry.
\<close>

definition clitoken_Save :: "env \<Rightarrow> string \<Rightarrow> token \<Rightarrow> world \<Rightarrow> auth_error option \<times> world" where
  "clitoken_Save e name tok w =
     (case Save_error e tok of
        Some err \<Rightarrow> (Some err, w\<lparr>calls := calls w @ [Save_call name tok]\<rparr>)
      | None \<Rightarrow>
          (None, w\<lparr>store := (store w)(name \<mapsto> tok),
                   calls := calls w @ [Save_call name tok]\<rparr>))"

section \<open>The CLI flow: \<open>setupAuthForCLI\<close>\<close>

text \<open>The result is Go's \<open>error\<close>: \<^term>\<open>None\<close> is nil.  \<open>now\<close> is what \<open>time.Now()\<close> reads.\<close>

definition setupAuthForCLI :: "env \<Rightarrow> Time \<Rightarrow> world \<Rightarrow> auth_error option \<times> world" where
  "setupAuthForCLI e now w =
     (case util_GetEnv e of
        Inl err \<Rightarrow> (Some err, w)
      | Inr envName \<Rightarrow>
     (case namespace_Get e envName of
        Inl err \<Rightarrow> (Some err, w)
      | Inr ns \<Rightarrow>
     (case clitoken_Get e of
        Inl err \<Rightarrow> (Some err, w)
      | Inr tok \<Rightarrow>
          if length (RefreshToken tok) = 0 then (None, w)
          else if Before now (Add (Expiry tok) (Minute * - 1)) then
            (None, DefaultAuth_Init [auth_ClientToken tok, auth_Issuer ns] w)
          else
            (case auth_Token e
                    [auth_WithToken (RefreshToken tok), auth_WithTokenIssuer ns,
                     auth_WithExpiry (Hour * 24)] w of
               (Inl err, w1) \<Rightarrow> (None, w1)
             | (Inr tok', w1) \<Rightarrow>
                 clitoken_Save e envName tok'
                   (DefaultAuth_Init [auth_ClientToken tok', auth_Issuer ns] w1)))))"

section \<open>The Service flow: \<open>setupAuthForService\<close>\<close>

text \<open>The second half of the function, from \<open>// generate the first token\<close> on.\<close>

definition first_token :: "env \<Rightarrow> string \<Rightarrow> string \<Rightarrow> world \<Rightarrow> auth_error option \<times> world" where
  "first_token e accID accSecret w =
     (case auth_Token e [auth_WithCredentials accID accSecret, auth_WithExpiry Hour] w of
        (Inl err, w1) \<Rightarrow> (Some err, w1)
      | (Inr tok, w1) \<Rightarrow>
          (None,
           DefaultAuth_Init [auth_ClientToken tok, auth_Credentials accID accSecret] w1))"

definition setupAuthForService :: "env \<Rightarrow> world \<Rightarrow> auth_error option \<times> world" where
  "setupAuthForService e w =
     (let opts = options w; accID = ID opts; accSecret = Secret opts in
      if length accID = 0 \<or> length accSecret = 0 then
        (case auth_Generate e (uuid_New e)
                [auth_WithType ''service'', auth_WithScopes [''service'']] w of
           (Inl err, w1) \<Rightarrow> (Some err, w1)
         | (Inr acc, w1) \<Rightarrow> first_token e (acc_ID acc) (acc_Secret acc) w1)
      else first_token e accID accSecret w)"

section \<open>The Refresh Loop: \<open>refreshAuthToken\<close>\<close>

text \<open>
  One pass through the body of the loop, at a tick when \<open>time.Now()\<close> reads \<open>now\<close>.
  The pass either goes back to waiting for the next tick or dereferences a nil \<open>*Token\<close>,
  which panics; a panic in the loop's goroutine ends the process.  Log calls do not touch
  the auth state and are left out, except that \<open>tok.Expiry.Format(...)\<close>, an argument of
  the last \<open>Debugf\<close>, reads through \<open>tok\<close>.
\<close>

datatype tick_result = Continue world | Panic world

definition tick :: "env \<Rightarrow> Time \<Rightarrow> world \<Rightarrow> tick_result" where
  "tick e now w =
     (case Token (options w) of
        None \<Rightarrow> Panic w
      | Some tok \<Rightarrow>
          if Unix (Expiry tok) > Unix (Add now Minute) then Continue w
          else
            (case auth_Token e
                    [auth_WithToken (RefreshToken tok), auth_WithExpiry (Minute * 10)] w of
               (Inr tok', w1) \<Rightarrow> Continue (DefaultAuth_Init [auth_ClientToken tok'] w1)
             | (Inl err, w1) \<Rightarrow>
                 if err = ErrInvalidToken then
                   (case auth_Token e
                           [auth_WithCredentials (ID (options w1)) (Secret (options w1)),
                            auth_WithExpiry (Minute * 10)] w1 of
                      (Inr tok', w2) \<Rightarrow>
                        Continue (DefaultAuth_Init [auth_ClientToken tok'] w2)
                    | (Inl err', w2) \<Rightarrow> Panic w2)
                 else Continue w1))"

text \<open>
  The loop never leaves \<open>for { select { case <-t.C: ... } }\<close> by itself.  It is run here
  on the readings of the clock at its first ticks, however many: \<open>Ticking\<close> is the loop
  waiting for the tick after those, \<open>Returned\<close> the function having returned, \<open>Panicked\<close>
  the process brought down.
\<close>

definition ticker_period :: Duration where
  "ticker_period = Second * 15"

datatype loop = Returned world | Ticking world | Panicked world

fun ticks :: "env \<Rightarrow> Time list \<Rightarrow> world \<Rightarrow> loop" where
  "ticks e [] w = Ticking w"
| "ticks e (now # nows) w =
     (case tick e now w of
        Panic w' \<Rightarrow> Panicked w'
      | Continue w' \<Rightarrow> ticks e nows w')"

definition refreshAuthToken :: "env \<Rightarrow> Time list \<Rightarrow> world \<Rightarrow> loop" where
  "refreshAuthToken e nows w =
     (if Token (options w) = None then Returned w else ticks e nows w)"

fun world_of :: "loop \<Rightarrow> world" where
  "world_of (Returned w) = w"
| "world_of (Ticking w) = w"
| "world_of (Panicked w) = w"

fun after_tick :: "tick_result \<Rightarrow> world" where
  "after_tick (Continue w) = w"
| "after_tick (Panic w) = w"

section \<open>Start-up: the auth part of \<open>Before\<close>\<close>

text \<open>
  \<open>Before\<close> runs one of the two flows, ends the process with \<open>logger.Fatalf\<close> when the
  flow returns an error, and otherwise goes on to start the Refresh Loop.
\<close>

datatype startup = Fatalf auth_error | Proceed world

definition Before_auth :: "bool \<Rightarrow> env \<Rightarrow> Time \<Rightarrow> world \<Rightarrow> startup" where
  "Before_auth service e now w =
     (case (if service then setupAuthForService e w else setupAuthForCLI e now w) of
        (Some err, w') \<Rightarrow> Fatalf err
      | (None, w') \<Rightarrow> Proceed w')"

section \<open>Counting exchanges\<close>

fun is_exchange :: "call \<Rightarrow> bool" where
  "is_exchange (Token_call topts) = True"
| "is_exchange (Generate_call name gopts) = False"
| "is_exchange (Save_call name tok) = False"

definition exchanges :: "call list \<Rightarrow> call list" where
  "exchanges cs = filter is_exchange cs"

section \<open>Concrete scenarios\<close>

text \<open>
  A process that has made no call yet and holds no credentials and no token; a token as
  the Credential Store may hold it; tokens and an account as the Auth Provider may issue
  them; a provider that answers a refresh-token exchange one way and a credential
  exchange another; and an environment named \<open>dev\<close> built from those.
\<close>

definition world0 :: world where
  "world0 =
     \<lparr>options = \<lparr>ID = [], Secret = [], Issuer = ''micro'', Token = None\<rparr>,
      store = Map.empty, calls = []\<rparr>"

definition stored_token :: "string \<Rightarrow> Time \<Rightarrow> token" where
  "stored_token rt expiry = \<lparr>AccessToken = ''a0'', RefreshToken = rt, Expiry = expiry\<rparr>"

definition issued_token :: "string \<Rightarrow> Time \<Rightarrow> token" where
  "issued_token rt expiry = \<lparr>AccessToken = ''a1'', RefreshToken = rt, Expiry = expiry\<rparr>"

definition issued_account :: account where
  "issued_account = \<lparr>acc_ID = ''svc-1'', acc_Secret = ''s3cret''\<rparr>"

definition answer_by_kind ::
  "(auth_error + token) \<Rightarrow> (auth_error + token) \<Rightarrow> call list \<Rightarrow> TokenOption list
     \<Rightarrow> auth_error + token" where
  "answer_by_kind refresh creds cs topts =
     (case topts of auth_WithToken rt # rest \<Rightarrow> refresh | _ \<Rightarrow> creds)"

definition dev_env ::
  "token \<Rightarrow> (auth_error + token) \<Rightarrow> (auth_error + token) \<Rightarrow> (auth_error + account) \<Rightarrow> env" where
  "dev_env stored refresh creds gen =
     \<lparr>util_GetEnv = Inr ''dev'',
      namespace_Get = (\<lambda>name. Inr (name @ ''-issuer'')),
      clitoken_Get = Inr stored,
      Save_error = (\<lambda>tok. None),
      uuid_New = ''6ba7b810-9dad-11d1-80b4-00c04fd430c8'',
      provider_Token = answer_by_kind refresh creds,
      provider_Generate = (\<lambda>cs name gopts. gen)\<rparr>"

definition holding :: "token \<Rightarrow> world" where
  "holding tok =
     world0\<lparr>options := (options world0)\<lparr>ID := ''svc-1'', Secret := ''s3cret'', Token := Some tok\<rparr>\<rparr>"

definition upper_e_acute :: "rune \<Rightarrow> rune" where
  "upper_e_acute r = (if r = 0xE9 then 0xC9 else r)"

section \<open>Facts about the presentation of errors\<close>

lemmas present_defs = upcaseInitial_def ToUpper_def string_of_rune_def char_of_def

text \<open>
  When the message starts with an ASCII character, that character alone is replaced by
  its upper-case form and every byte after it is kept.
\<close>

lemma of_char_nonneg: "0 \<le> (of_char c :: int)"
  by (metis of_nat_0_le_iff of_nat_of_char)

lemma upcaseInitial_ascii:
  assumes "(of_char c :: int) < 0x80"
  shows "upcaseInitial up (c # cs) = char_of (ToUpper up (of_char c)) # cs"
proof -
  have nonneg: "0 \<le> (of_char c :: int)"
    by (rule of_char_nonneg)
  have "decodeRune (c # cs) = of_char c"
    using assms by simp
  moreover have "ToUpper up (of_char c) < 0x80" and "0 \<le> ToUpper up (of_char c)"
    using assms nonneg by (auto simp: ToUpper_def)
  ultimately show ?thesis
    by (simp add: upcaseInitial_def string_of_rune_def)
qed

lemma formatErr_detail_example:
  "formatErr up (errors_Error ''account not found'') = ''Account not found''"
  by (simp add: present_defs)

lemma formatErr_message_example:
  "formatErr up (other_error ''io timeout'') = ''Io timeout''"
  by (simp add: present_defs)

lemma formatErr_empty: "formatErr up (errors_Error []) = [] \<and> formatErr up (other_error []) = []"
  by (simp add: upcaseInitial_def)

text \<open>
  Claim C2.  For every error value the presented message is the error's detail (for an
  error that carries one) or its generic message, with exactly the first character
  upper-cased and every other character unchanged.  The code drops one byte, not one
  character: a detail that starts with \<open>U+00E9\<close>, whose encoding is the two bytes
  \<open>C3 A9\<close>, keeps the byte \<open>A9\<close> behind the upper-cased first character.  With the
  upper case of \<open>U+00E9\<close> being \<open>U+00C9\<close> (bytes \<open>C3 89\<close>) the presented message is
  the six bytes \<open>C3 89 A9 6C 61 6E\<close>, which is not the detail with its first character
  upper-cased.
\<close>

theorem formatErr_multibyte_initial:
  "formatErr up (errors_Error [CHR 0xC3, CHR 0xA9, CHR ''l'', CHR ''a'', CHR ''n'']) =
     string_of_rune (ToUpper up 0xE9) @ [CHR 0xA9, CHR ''l'', CHR ''a'', CHR ''n'']
   \<and> formatErr upper_e_acute (errors_Error [CHR 0xC3, CHR 0xA9, CHR ''l'', CHR ''a'', CHR ''n'']) =
     [CHR 0xC3, CHR 0x89, CHR 0xA9, CHR ''l'', CHR ''a'', CHR ''n'']"
proof
  show "formatErr up (errors_Error [CHR 0xC3, CHR 0xA9, CHR ''l'', CHR ''a'', CHR ''n'']) =
     string_of_rune (ToUpper up 0xE9) @ [CHR 0xA9, CHR ''l'', CHR ''a'', CHR ''n'']"
    by (simp add: upcaseInitial_def continuation_def)
  show "formatErr upper_e_acute (errors_Error [CHR 0xC3, CHR 0xA9, CHR ''l'', CHR ''a'', CHR ''n'']) =
     [CHR 0xC3, CHR 0x89, CHR 0xA9, CHR ''l'', CHR ''a'', CHR ''n'']"
    by (simp add: present_defs continuation_def upper_e_acute_def)
qed

section \<open>Facts about the CLI flow\<close>

lemmas flow_defs = setupAuthForCLI_def setupAuthForService_def first_token_def
  auth_Token_def auth_Generate_def clitoken_Save_def DefaultAuth_Init_def

lemmas time_defs = Before_def Add_def Unix_def Minute_def Hour_def Second_def

lemmas scenario_defs = dev_env_def world0_def stored_token_def issued_token_def
  issued_account_def answer_by_kind_def holding_def

text \<open>
  Claim C10.  When the persisted Token has an empty refreshToken, the CLI flow returns
  success and leaves the world as it was: no Token installed, no call to the Auth
  Provider, no write to the Credential Store, whatever the Token's expiry and the time.
\<close>

theorem setupAuthForCLI_no_refresh_token:
  assumes "util_GetEnv e = Inr envName" and "namespace_Get e envName = Inr ns"
    and "clitoken_Get e = Inr tok" and "RefreshToken tok = []"
  shows "setupAuthForCLI e now w = (None, w) \<and> Before_auth False e now w = Proceed w"
  using assms by (simp add: setupAuthForCLI_def Before_auth_def)

theorem setupAuthForCLI_no_refresh_token_witness:
  "RefreshToken (stored_token [] (Hour * 2)) = []
   \<and> 0 < Expiry (stored_token [] (Hour * 2)) - Minute
   \<and> setupAuthForCLI
       (dev_env (stored_token [] (Hour * 2)) (Inl ErrInvalidToken) (Inl ErrInvalidToken)
          (Inl ErrInvalidToken)) 0 world0 = (None, world0)"
  using setupAuthForCLI_no_refresh_token
    [of "dev_env (stored_token [] (Hour * 2)) (Inl ErrInvalidToken) (Inl ErrInvalidToken)
           (Inl ErrInvalidToken)" "''dev''" "''dev-issuer''" "stored_token [] (Hour * 2)"
        0 world0]
  by (simp add: dev_env_def stored_token_def time_defs)

text \<open>
  Claim C9.  When the CLI flow attempts its refresh-token exchange and the exchange
  fails, the flow returns success (nil), so start-up proceeds; the auth options and the
  Credential Store are as before, and the failed exchange is the only call made.
\<close>

theorem setupAuthForCLI_exchange_fails:
  assumes "util_GetEnv e = Inr envName" and "namespace_Get e envName = Inr ns"
    and "clitoken_Get e = Inr tok" and "RefreshToken tok \<noteq> []"
    and "Expiry tok - Minute \<le> now"
    and "provider_Token e (calls w)
           [auth_WithToken (RefreshToken tok), auth_WithTokenIssuer ns,
            auth_WithExpiry (Hour * 24)] = Inl err"
  shows "setupAuthForCLI e now w =
           (None, w\<lparr>calls := calls w @
              [Token_call [auth_WithToken (RefreshToken tok), auth_WithTokenIssuer ns,
                           auth_WithExpiry (Hour * 24)]]\<rparr>)
     \<and> Before_auth False e now w =
           Proceed (w\<lparr>calls := calls w @
              [Token_call [auth_WithToken (RefreshToken tok), auth_WithTokenIssuer ns,
                           auth_WithExpiry (Hour * 24)]]\<rparr>)"
  using assms
  by (simp add: setupAuthForCLI_def Before_auth_def auth_Token_def Before_def Add_def)

theorem setupAuthForCLI_exchange_fails_witness:
  "setupAuthForCLI
     (dev_env (stored_token ''r1'' (Second * - 10)) (Inl (ErrOther ''unavailable''))
        (Inl ErrInvalidToken) (Inl ErrInvalidToken)) 0 world0 =
     (None, world0\<lparr>calls :=
        [Token_call [auth_WithToken ''r1'', auth_WithTokenIssuer ''dev-issuer'',
                     auth_WithExpiry (Hour * 24)]]\<rparr>)
   \<and> Token (options (snd (setupAuthForCLI
       (dev_env (stored_token ''r1'' (Second * - 10)) (Inl (ErrOther ''unavailable''))
          (Inl ErrInvalidToken) (Inl ErrInvalidToken)) 0 world0))) = None"
  using setupAuthForCLI_exchange_fails
    [of "dev_env (stored_token ''r1'' (Second * - 10)) (Inl (ErrOther ''unavailable''))
           (Inl ErrInvalidToken) (Inl ErrInvalidToken)" "''dev''" "''dev-issuer''"
        "stored_token ''r1'' (Second * - 10)" 0 world0 "ErrOther ''unavailable''"]
  by (simp add: scenario_defs time_defs)

text \<open>
  Against claim C4 as stated: a persisted Token that expires in two hours but has an
  empty refreshToken is not installed.
\<close>

theorem setupAuthForCLI_valid_token_counterexample:
  "0 < Expiry (stored_token [] (Hour * 2)) - Minute
   \<and> Token (options (snd (setupAuthForCLI
        (dev_env (stored_token [] (Hour * 2)) (Inl ErrInvalidToken) (Inl ErrInvalidToken)
           (Inl ErrInvalidToken)) 0 world0))) = None"
  by (simp add: flow_defs scenario_defs time_defs)

text \<open>
  Claim C4, amended.  For every persisted Token with a non-empty refreshToken whose
  expiry satisfies \<open>now < expiry - 1 minute\<close>, the CLI flow installs that Token as it is,
  together with the environment's issuer, returns success and makes no call at all.
\<close>

theorem setupAuthForCLI_valid_token:
  assumes "util_GetEnv e = Inr envName" and "namespace_Get e envName = Inr ns"
    and "clitoken_Get e = Inr tok" and "RefreshToken tok \<noteq> []"
    and "now < Expiry tok - Minute"
  shows "setupAuthForCLI e now w =
           (None, w\<lparr>options := (options w)\<lparr>Token := Some tok, Issuer := ns\<rparr>\<rparr>)"
  using assms by (simp add: setupAuthForCLI_def DefaultAuth_Init_def Before_def Add_def)

theorem setupAuthForCLI_valid_token_witness:
  "setupAuthForCLI
     (dev_env (stored_token ''r1'' (Hour * 2)) (Inl ErrInvalidToken) (Inl ErrInvalidToken)
        (Inl ErrInvalidToken)) 0 world0 =
     (None, world0\<lparr>options := (options world0)
        \<lparr>Token := Some (stored_token ''r1'' (Hour * 2)), Issuer := ''dev-issuer''\<rparr>\<rparr>)"
  using setupAuthForCLI_valid_token
    [of "dev_env (stored_token ''r1'' (Hour * 2)) (Inl ErrInvalidToken) (Inl ErrInvalidToken)
           (Inl ErrInvalidToken)" "''dev''" "''dev-issuer''" "stored_token ''r1'' (Hour * 2)"
        0 world0]
  by (simp add: dev_env_def stored_token_def time_defs)

text \<open>
  Against claim C5 as stated: a persisted Token that expired ten seconds ago and has an
  empty refreshToken leads to no exchange at all.
\<close>

theorem setupAuthForCLI_refresh_counterexample:
  "Expiry (stored_token [] (Second * - 10)) - Minute \<le> 0
   \<and> calls (snd (setupAuthForCLI
        (dev_env (stored_token [] (Second * - 10)) (Inr (issued_token ''r2'' (Hour * 24)))
           (Inl ErrInvalidToken) (Inl ErrInvalidToken)) 0 world0)) = []"
  by (simp add: flow_defs scenario_defs time_defs)

text \<open>
  Claim C5, amended.  For every persisted Token with a non-empty refreshToken whose
  expiry is within one minute of now or already past, the CLI flow performs exactly one
  refresh-token exchange, for the environment's issuer and a validity of 24 hours.  When
  the exchange succeeds, the flow installs the resulting Token, saves it to the
  Credential Store under the environment's name and returns what the save returns; a
  successful save has replaced the entry.
\<close>

theorem setupAuthForCLI_refresh:
  assumes "util_GetEnv e = Inr envName" and "namespace_Get e envName = Inr ns"
    and "clitoken_Get e = Inr tok" and "RefreshToken tok \<noteq> []"
    and "Expiry tok - Minute \<le> now"
  shows "exchanges (calls (snd (setupAuthForCLI e now w))) =
           exchanges (calls w) @
             [Token_call [auth_WithToken (RefreshToken tok), auth_WithTokenIssuer ns,
                          auth_WithExpiry (Hour * 24)]]
     \<and> (\<forall>tok'. provider_Token e (calls w)
                  [auth_WithToken (RefreshToken tok), auth_WithTokenIssuer ns,
                   auth_WithExpiry (Hour * 24)] = Inr tok' \<longrightarrow>
           Token (options (snd (setupAuthForCLI e now w))) = Some tok'
           \<and> Issuer (options (snd (setupAuthForCLI e now w))) = ns
           \<and> calls (snd (setupAuthForCLI e now w)) =
               calls w @
                 [Token_call [auth_WithToken (RefreshToken tok), auth_WithTokenIssuer ns,
                              auth_WithExpiry (Hour * 24)],
                  Save_call envName tok']
           \<and> fst (setupAuthForCLI e now w) = Save_error e tok'
           \<and> (Save_error e tok' = None \<longrightarrow>
                store (snd (setupAuthForCLI e now w)) envName = Some tok'))"
  using assms
  by (auto simp add: flow_defs Before_def Add_def exchanges_def
      split: sum.splits option.splits)

theorem setupAuthForCLI_refresh_witness:
  "exchanges (calls (snd (setupAuthForCLI
       (dev_env (stored_token ''r1'' (Second * - 10)) (Inr (issued_token ''r2'' (Hour * 24)))
          (Inl ErrInvalidToken) (Inl ErrInvalidToken)) 0 world0))) =
     [Token_call [auth_WithToken ''r1'', auth_WithTokenIssuer ''dev-issuer'',
                  auth_WithExpiry (Hour * 24)]]
   \<and> Token (options (snd (setupAuthForCLI
       (dev_env (stored_token ''r1'' (Second * - 10)) (Inr (issued_token ''r2'' (Hour * 24)))
          (Inl ErrInvalidToken) (Inl ErrInvalidToken)) 0 world0))) =
     Some (issued_token ''r2'' (Hour * 24))
   \<and> calls (snd (setupAuthForCLI
       (dev_env (stored_token ''r1'' (Second * - 10)) (Inr (issued_token ''r2'' (Hour * 24)))
          (Inl ErrInvalidToken) (Inl ErrInvalidToken)) 0 world0)) =
     [Token_call [auth_WithToken ''r1'', auth_WithTokenIssuer ''dev-issuer'',
                  auth_WithExpiry (Hour * 24)],
      Save_call ''dev'' (issued_token ''r2'' (Hour * 24))]
   \<and> fst (setupAuthForCLI
       (dev_env (stored_token ''r1'' (Second * - 10)) (Inr (issued_token ''r2'' (Hour * 24)))
          (Inl ErrInvalidToken) (Inl ErrInvalidToken)) 0 world0) = None
   \<and> store (snd (setupAuthForCLI
       (dev_env (stored_token ''r1'' (Second * - 10)) (Inr (issued_token ''r2'' (Hour * 24)))
          (Inl ErrInvalidToken) (Inl ErrInvalidToken)) 0 world0)) ''dev'' =
     Some (issued_token ''r2'' (Hour * 24))"
proof -
  let ?e = "dev_env (stored_token ''r1'' (Second * - 10))
              (Inr (issued_token ''r2'' (Hour * 24))) (Inl ErrInvalidToken)
              (Inl ErrInvalidToken)"
  have env: "util_GetEnv ?e = Inr ''dev''" "namespace_Get ?e ''dev'' = Inr ''dev-issuer''"
    "clitoken_Get ?e = Inr (stored_token ''r1'' (Second * - 10))"
    by (simp_all add: dev_env_def)
  have tok: "RefreshToken (stored_token ''r1'' (Second * - 10)) \<noteq> []"
    "Expiry (stored_token ''r1'' (Second * - 10)) - Minute \<le> 0"
    by (simp_all add: stored_token_def time_defs)
  have answer: "provider_Token ?e (calls world0)
      [auth_WithToken (RefreshToken (stored_token ''r1'' (Second * - 10))),
       auth_WithTokenIssuer ''dev-issuer'', auth_WithExpiry (Hour * 24)] =
      Inr (issued_token ''r2'' (Hour * 24))"
    by (simp add: dev_env_def answer_by_kind_def)
  have save: "Save_error ?e (issued_token ''r2'' (Hour * 24)) = None"
    by (simp add: dev_env_def)
  have start: "calls world0 = []"
    by (simp add: world0_def)
  from setupAuthForCLI_refresh [OF env tok, where w = world0] answer save
  show ?thesis
    by (simp add: stored_token_def start exchanges_def)
qed

section \<open>Facts about the Service flow\<close>

text \<open>
  Claim C6.  When the ID or the secret is missing from the auth options, the Service
  flow makes exactly one \<open>auth.Generate\<close> call, named by the fresh identifier, with type
  \<open>service\<close> and scope \<open>service\<close>.  If that call fails, the flow returns its error after
  that one call, and start-up ends with \<open>Fatalf\<close>.  If it succeeds, exactly one
  credential exchange follows, with the generated ID and secret and a validity of one
  hour, and no other call; when the exchange succeeds both the credentials and the Token
  are installed.
\<close>

theorem setupAuthForService_self_generated:
  assumes "ID (options w) = [] \<or> Secret (options w) = []"
  shows "(\<forall>err. provider_Generate e (calls w) (uuid_New e)
                  [auth_WithType ''service'', auth_WithScopes [''service'']] = Inl err \<longrightarrow>
            setupAuthForService e w =
              (Some err, w\<lparr>calls := calls w @
                 [Generate_call (uuid_New e)
                    [auth_WithType ''service'', auth_WithScopes [''service'']]]\<rparr>)
            \<and> Before_auth True e now w = Fatalf err)
     \<and> (\<forall>acc. provider_Generate e (calls w) (uuid_New e)
                  [auth_WithType ''service'', auth_WithScopes [''service'']] = Inr acc \<longrightarrow>
            calls (snd (setupAuthForService e w)) =
              calls w @
                [Generate_call (uuid_New e)
                   [auth_WithType ''service'', auth_WithScopes [''service'']],
                 Token_call [auth_WithCredentials (acc_ID acc) (acc_Secret acc),
                             auth_WithExpiry Hour]])
     \<and> (\<forall>acc tok.
            provider_Generate e (calls w) (uuid_New e)
              [auth_WithType ''service'', auth_WithScopes [''service'']] = Inr acc
            \<and> provider_Token e
                (calls w @
                   [Generate_call (uuid_New e)
                      [auth_WithType ''service'', auth_WithScopes [''service'']]])
                [auth_WithCredentials (acc_ID acc) (acc_Secret acc), auth_WithExpiry Hour] =
              Inr tok \<longrightarrow>
            setupAuthForService e w =
              (None,
               w\<lparr>options := (options w)
                    \<lparr>ID := acc_ID acc, Secret := acc_Secret acc, Token := Some tok\<rparr>,
                 calls := calls w @
                   [Generate_call (uuid_New e)
                      [auth_WithType ''service'', auth_WithScopes [''service'']],
                    Token_call [auth_WithCredentials (acc_ID acc) (acc_Secret acc),
                                auth_WithExpiry Hour]]\<rparr>))"
proof (intro conjI allI impI)
  fix err
  assume "provider_Generate e (calls w) (uuid_New e)
            [auth_WithType ''service'', auth_WithScopes [''service'']] = Inl err"
  with assms show "setupAuthForService e w =
      (Some err, w\<lparr>calls := calls w @
         [Generate_call (uuid_New e)
            [auth_WithType ''service'', auth_WithScopes [''service'']]]\<rparr>)"
    by (auto simp add: setupAuthForService_def auth_Generate_def)
  then show "Before_auth True e now w = Fatalf err"
    by (simp add: Before_auth_def)
next
  fix acc
  assume "provider_Generate e (calls w) (uuid_New e)
            [auth_WithType ''service'', auth_WithScopes [''service'']] = Inr acc"
  with assms show "calls (snd (setupAuthForService e w)) =
      calls w @
        [Generate_call (uuid_New e)
           [auth_WithType ''service'', auth_WithScopes [''service'']],
         Token_call [auth_WithCredentials (acc_ID acc) (acc_Secret acc),
                     auth_WithExpiry Hour]]"
    by (auto simp add: flow_defs split: sum.splits)
next
  fix acc tok
  assume "provider_Generate e (calls w) (uuid_New e)
            [auth_WithType ''service'', auth_WithScopes [''service'']] = Inr acc
          \<and> provider_Token e
              (calls w @
                 [Generate_call (uuid_New e)
                    [auth_WithType ''service'', auth_WithScopes [''service'']]])
              [auth_WithCredentials (acc_ID acc) (acc_Secret acc), auth_WithExpiry Hour] =
            Inr tok"
  with assms show "setupAuthForService e w =
      (None,
       w\<lparr>options := (options w)
            \<lparr>ID := acc_ID acc, Secret := acc_Secret acc, Token := Some tok\<rparr>,
         calls := calls w @
           [Generate_call (uuid_New e)
              [auth_WithType ''service'', auth_WithScopes [''service'']],
            Token_call [auth_WithCredentials (acc_ID acc) (acc_Secret acc),
                        auth_WithExpiry Hour]]\<rparr>)"
    by (auto simp add: flow_defs)
qed

theorem setupAuthForService_self_generated_witness:
  "setupAuthForService
     (dev_env (stored_token [] 0) (Inl ErrInvalidToken)
        (Inr (issued_token ''r1'' (Hour * 1))) (Inr issued_account)) world0 =
     (None,
      world0\<lparr>options := (options world0)
               \<lparr>ID := ''svc-1'', Secret := ''s3cret'',
                Token := Some (issued_token ''r1'' (Hour * 1))\<rparr>,
             calls :=
               [Generate_call ''6ba7b810-9dad-11d1-80b4-00c04fd430c8''
                  [auth_WithType ''service'', auth_WithScopes [''service'']],
                Token_call [auth_WithCredentials ''svc-1'' ''s3cret'',
                            auth_WithExpiry Hour]]\<rparr>)
   \<and> setupAuthForService
       (dev_env (stored_token [] 0) (Inl ErrInvalidToken)
          (Inr (issued_token ''r1'' (Hour * 1))) (Inl (ErrOther ''unavailable''))) world0 =
     (Some (ErrOther ''unavailable''),
      world0\<lparr>calls :=
               [Generate_call ''6ba7b810-9dad-11d1-80b4-00c04fd430c8''
                  [auth_WithType ''service'', auth_WithScopes [''service'']]]\<rparr>)
   \<and> Before_auth True
       (dev_env (stored_token [] 0) (Inl ErrInvalidToken)
          (Inr (issued_token ''r1'' (Hour * 1))) (Inl (ErrOther ''unavailable''))) 0 world0 =
     Fatalf (ErrOther ''unavailable'')"
proof -
  have no_creds: "ID (options world0) = [] \<or> Secret (options world0) = []"
    by (simp add: world0_def)
  have start: "calls world0 = []"
    by (simp add: world0_def)
  show ?thesis
    using setupAuthForService_self_generated [OF no_creds,
        of "dev_env (stored_token [] 0) (Inl ErrInvalidToken)
              (Inr (issued_token ''r1'' (Hour * 1))) (Inr issued_account)" 0]
      setupAuthForService_self_generated [OF no_creds,
        of "dev_env (stored_token [] 0) (Inl ErrInvalidToken)
              (Inr (issued_token ''r1'' (Hour * 1))) (Inl (ErrOther ''unavailable''))" 0]
    by (simp add: start dev_env_def answer_by_kind_def issued_account_def)
qed

section \<open>Facts about the Refresh Loop\<close>

lemma ticks_not_Returned: "ticks e nows w \<noteq> Returned w'"
  by (induction nows arbitrary: w) (auto split: tick_result.splits)

lemma ticks_idle:
  assumes "Token (options w) = Some tok"
    and "\<forall>now \<in> set nows. Unix (Add now Minute) < Unix (Expiry tok)"
  shows "ticks e nows w = Ticking w"
  using assms by (induction nows) (auto simp: tick_def)

lemma Unix_mono: "t \<le> u \<Longrightarrow> Unix t \<le> Unix u"
  by (simp add: Unix_def Second_def zdiv_mono1)

lemma Unix_Add_Second: "Unix (Add t Second) = Unix t + 1"
  by (simp add: Unix_def Add_def Second_def)

text \<open>A tick makes a call exactly when the expiry's second is not after that of now + 1 minute.\<close>

lemma tick_calls_iff:
  assumes "Token (options w) = Some tok"
  shows "(calls (after_tick (tick e now w)) \<noteq> calls w) =
           (Unix (Expiry tok) \<le> Unix (Add now Minute))"
  using assms
  by (auto simp add: tick_def auth_Token_def DefaultAuth_Init_def split: sum.splits)

lemma tick_first_call:
  assumes "Token (options w) = Some tok"
    and "Unix (Expiry tok) \<le> Unix (Add now Minute)"
  shows "\<exists>rest. calls (after_tick (tick e now w)) =
           calls w @ Token_call [auth_WithToken (RefreshToken tok),
                                 auth_WithExpiry (Minute * 10)] # rest"
  using assms
  by (auto simp add: tick_def auth_Token_def DefaultAuth_Init_def split: sum.splits)

lemma tick_idle_after_a_second:
  assumes "Token (options w) = Some tok"
    and "now + Minute + Second \<le> Expiry tok"
  shows "tick e now w = Continue w"
proof -
  have "Unix (Add (Add now Minute) Second) \<le> Unix (Expiry tok)"
    using assms(2) by (intro Unix_mono) (simp add: Add_def)
  then have "Unix (Add now Minute) < Unix (Expiry tok)"
    by (simp add: Unix_Add_Second)
  with assms(1) show ?thesis
    by (simp add: tick_def)
qed

text \<open>
  The sibling of the path of claim C1: any error of the refresh-token exchange other
  than \<open>ErrInvalidToken\<close> leaves the installed Token in place and the loop running.
\<close>

lemma tick_other_error:
  assumes "Token (options w) = Some tok"
    and "Unix (Expiry tok) \<le> Unix (Add now Minute)"
    and "provider_Token e (calls w)
           [auth_WithToken (RefreshToken tok), auth_WithExpiry (Minute * 10)] =
         Inl (ErrOther msg)"
  shows "tick e now w =
           Continue (w\<lparr>calls := calls w @
             [Token_call [auth_WithToken (RefreshToken tok),
                          auth_WithExpiry (Minute * 10)]]\<rparr>)"
  using assms by (simp add: tick_def auth_Token_def)

text \<open>
  Claim C7.  At a tick that attempts the refresh-token exchange and is answered
  \<open>ErrInvalidToken\<close>, the calls of the tick are that exchange and then exactly one
  credential exchange, with the ID and secret of the auth options and a validity of ten
  minutes.  When the credential exchange succeeds, its Token is installed and the loop
  goes on to wait for the next tick.
\<close>

theorem tick_regenerates:
  assumes "Token (options w) = Some tok"
    and "Unix (Expiry tok) \<le> Unix (Add now Minute)"
    and "provider_Token e (calls w)
           [auth_WithToken (RefreshToken tok), auth_WithExpiry (Minute * 10)] =
         Inl ErrInvalidToken"
  shows "calls (after_tick (tick e now w)) =
           calls w @
             [Token_call [auth_WithToken (RefreshToken tok), auth_WithExpiry (Minute * 10)],
              Token_call [auth_WithCredentials (ID (options w)) (Secret (options w)),
                          auth_WithExpiry (Minute * 10)]]
     \<and> (\<forall>tok'. provider_Token e
                  (calls w @
                     [Token_call [auth_WithToken (RefreshToken tok),
                                  auth_WithExpiry (Minute * 10)]])
                  [auth_WithCredentials (ID (options w)) (Secret (options w)),
                   auth_WithExpiry (Minute * 10)] = Inr tok' \<longrightarrow>
           tick e now w =
             Continue
               (w\<lparr>options := (options w)\<lparr>Token := Some tok'\<rparr>,
                  calls := calls w @
                    [Token_call [auth_WithToken (RefreshToken tok),
                                 auth_WithExpiry (Minute * 10)],
                     Token_call [auth_WithCredentials (ID (options w)) (Secret (options w)),
                                 auth_WithExpiry (Minute * 10)]]\<rparr>))"
  using assms
  by (auto simp add: tick_def auth_Token_def DefaultAuth_Init_def split: sum.splits)

theorem tick_regenerates_witness:
  "tick (dev_env (stored_token [] 0) (Inl ErrInvalidToken)
           (Inr (issued_token ''r2'' (Minute * 10))) (Inr issued_account))
        0 (holding (issued_token ''r1'' (Second * 30))) =
     Continue
       ((holding (issued_token ''r1'' (Second * 30)))
          \<lparr>options := (options (holding (issued_token ''r1'' (Second * 30))))
                        \<lparr>Token := Some (issued_token ''r2'' (Minute * 10))\<rparr>,
           calls :=
             [Token_call [auth_WithToken ''r1'', auth_WithExpiry (Minute * 10)],
              Token_call [auth_WithCredentials ''svc-1'' ''s3cret'',
                          auth_WithExpiry (Minute * 10)]]\<rparr>)"
proof -
  let ?e = "dev_env (stored_token [] 0) (Inl ErrInvalidToken)
              (Inr (issued_token ''r2'' (Minute * 10))) (Inr issued_account)"
  let ?w = "holding (issued_token ''r1'' (Second * 30))"
  have held: "Token (options ?w) = Some (issued_token ''r1'' (Second * 30))"
    by (simp add: holding_def)
  have due: "Unix (Expiry (issued_token ''r1'' (Second * 30))) \<le> Unix (Add 0 Minute)"
    by (simp add: issued_token_def time_defs)
  have invalid: "provider_Token ?e (calls ?w)
      [auth_WithToken (RefreshToken (issued_token ''r1'' (Second * 30))),
       auth_WithExpiry (Minute * 10)] = Inl ErrInvalidToken"
    by (simp add: dev_env_def answer_by_kind_def)
  have regenerated: "provider_Token ?e
      (calls ?w @ [Token_call [auth_WithToken (RefreshToken (issued_token ''r1'' (Second * 30))),
                               auth_WithExpiry (Minute * 10)]])
      [auth_WithCredentials (ID (options ?w)) (Secret (options ?w)),
       auth_WithExpiry (Minute * 10)] = Inr (issued_token ''r2'' (Minute * 10))"
    by (simp add: dev_env_def answer_by_kind_def)
  have before: "calls ?w = []" "ID (options ?w) = ''svc-1''" "Secret (options ?w) = ''s3cret''"
    "RefreshToken (issued_token ''r1'' (Second * 30)) = ''r1''"
    by (simp_all add: holding_def world0_def issued_token_def)
  from tick_regenerates [OF held due invalid] regenerated
  have "tick ?e 0 ?w =
     Continue
       (?w\<lparr>options := (options ?w)\<lparr>Token := Some (issued_token ''r2'' (Minute * 10))\<rparr>,
           calls := calls ?w @
             [Token_call [auth_WithToken (RefreshToken (issued_token ''r1'' (Second * 30))),
                          auth_WithExpiry (Minute * 10)],
              Token_call [auth_WithCredentials (ID (options ?w)) (Secret (options ?w)),
                          auth_WithExpiry (Minute * 10)]]\<rparr>)"
    by blast
  then show ?thesis
    by (simp only: before append_Nil)
qed

text \<open>
  Against claim C8 as stated: a Token that expires 60.5 seconds after now has
  \<open>expiry > now + 1 minute\<close>, and the tick attempts an exchange all the same, because the
  code compares whole seconds.
\<close>

theorem tick_exchange_counterexample:
  "0 + Minute < Expiry (issued_token ''r1'' (Second * 60 + 500000000))
   \<and> calls (after_tick
        (tick (dev_env (stored_token [] 0) (Inl (ErrOther ''unavailable''))
                 (Inl ErrInvalidToken) (Inr issued_account))
              0 (holding (issued_token ''r1'' (Second * 60 + 500000000))))) =
     [Token_call [auth_WithToken ''r1'', auth_WithExpiry (Minute * 10)]]"
  by (simp add: tick_def auth_Token_def scenario_defs time_defs)

text \<open>
  Claim C8, amended.  On each tick an exchange is attempted if and only if the installed
  Token's expiry, in whole seconds since the epoch (rounded down), is at most
  now + 1 minute in whole seconds.  So the exchange is attempted whenever
  \<open>expiry \<le> now + 1 minute\<close> and is not attempted whenever
  \<open>expiry \<ge> now + 1 minute + 1 second\<close>.  The first call of an attempt is the
  refresh-token exchange with a validity of ten minutes, and any number of ticks at which
  the expiry's second is after that of now + 1 minute make no call and change nothing.
\<close>

theorem tick_exchange_iff:
  assumes "Token (options w) = Some tok"
  shows "((calls (after_tick (tick e now w)) \<noteq> calls w) =
            (Unix (Expiry tok) \<le> Unix (Add now Minute)))
     \<and> (Unix (Expiry tok) \<le> Unix (Add now Minute) \<longrightarrow>
          (\<exists>rest. calls (after_tick (tick e now w)) =
             calls w @ Token_call [auth_WithToken (RefreshToken tok),
                                   auth_WithExpiry (Minute * 10)] # rest))
     \<and> (Expiry tok \<le> now + Minute \<longrightarrow> calls (after_tick (tick e now w)) \<noteq> calls w)
     \<and> (now + Minute + Second \<le> Expiry tok \<longrightarrow> tick e now w = Continue w)
     \<and> ((\<forall>t \<in> set nows. Unix (Add t Minute) < Unix (Expiry tok)) \<longrightarrow>
          refreshAuthToken e nows w = Ticking w)"
proof (intro conjI impI)
  show iff: "(calls (after_tick (tick e now w)) \<noteq> calls w) =
      (Unix (Expiry tok) \<le> Unix (Add now Minute))"
    using assms by (rule tick_calls_iff)
  show "\<exists>rest. calls (after_tick (tick e now w)) =
      calls w @ Token_call [auth_WithToken (RefreshToken tok),
                            auth_WithExpiry (Minute * 10)] # rest"
    if "Unix (Expiry tok) \<le> Unix (Add now Minute)"
    using assms that by (rule tick_first_call)
  show "calls (after_tick (tick e now w)) \<noteq> calls w" if "Expiry tok \<le> now + Minute"
    using iff that Unix_mono [of "Expiry tok" "Add now Minute"] by (simp add: Add_def)
  show "tick e now w = Continue w" if "now + Minute + Second \<le> Expiry tok"
    using assms that by (rule tick_idle_after_a_second)
  show "refreshAuthToken e nows w = Ticking w"
    if "\<forall>t \<in> set nows. Unix (Add t Minute) < Unix (Expiry tok)"
    using assms that ticks_idle [of w tok nows e] by (simp add: refreshAuthToken_def)
qed

theorem tick_exchange_iff_witness:
  "calls (after_tick
      (tick (dev_env (stored_token [] 0) (Inr (issued_token ''r2'' (Minute * 10)))
               (Inl ErrInvalidToken) (Inr issued_account))
            0 (holding (issued_token ''r1'' (Second * 30))))) \<noteq>
     calls (holding (issued_token ''r1'' (Second * 30)))
   \<and> tick (dev_env (stored_token [] 0) (Inr (issued_token ''r2'' (Minute * 10)))
             (Inl ErrInvalidToken) (Inr issued_account))
          0 (holding (issued_token ''r1'' (Hour * 1))) =
     Continue (holding (issued_token ''r1'' (Hour * 1)))
   \<and> refreshAuthToken
       (dev_env (stored_token [] 0) (Inr (issued_token ''r2'' (Minute * 10)))
          (Inl ErrInvalidToken) (Inr issued_account))
       [0, Second * 15, Second * 30] (holding (issued_token ''r1'' (Hour * 1))) =
     Ticking (holding (issued_token ''r1'' (Hour * 1)))"
proof -
  let ?e = "dev_env (stored_token [] 0) (Inr (issued_token ''r2'' (Minute * 10)))
              (Inl ErrInvalidToken) (Inr issued_account)"
  have near: "Token (options (holding (issued_token ''r1'' (Second * 30)))) =
      Some (issued_token ''r1'' (Second * 30))"
    by (simp add: holding_def)
  have far: "Token (options (holding (issued_token ''r1'' (Hour * 1)))) =
      Some (issued_token ''r1'' (Hour * 1))"
    by (simp add: holding_def)
  have due: "Expiry (issued_token ''r1'' (Second * 30)) \<le> 0 + Minute"
    by (simp add: issued_token_def time_defs)
  have not_due: "0 + Minute + Second \<le> Expiry (issued_token ''r1'' (Hour * 1))"
    by (simp add: issued_token_def time_defs)
  have idle: "\<forall>t \<in> set [0, Second * 15, Second * 30].
      Unix (Add t Minute) < Unix (Expiry (issued_token ''r1'' (Hour * 1)))"
    by (simp add: issued_token_def time_defs)
  from tick_exchange_iff [OF near, of ?e 0 "[]"] due
  have first: "calls (after_tick (tick ?e 0 (holding (issued_token ''r1'' (Second * 30))))) \<noteq>
      calls (holding (issued_token ''r1'' (Second * 30)))"
    by blast
  from tick_exchange_iff [OF far, of ?e 0 "[0, Second * 15, Second * 30]"] not_due idle
  have rest: "tick ?e 0 (holding (issued_token ''r1'' (Hour * 1))) =
      Continue (holding (issued_token ''r1'' (Hour * 1)))"
    "refreshAuthToken ?e [0, Second * 15, Second * 30] (holding (issued_token ''r1'' (Hour * 1))) =
      Ticking (holding (issued_token ''r1'' (Hour * 1)))"
    by blast+
  from first rest show ?thesis
    by (intro conjI)
qed

text \<open>
  Against claim C3 as stated: the Service flow installs a Token that the provider issued
  without a refresh token, and the loop then runs and, when that Token is about to
  expire, attempts an exchange with the empty refresh token.
\<close>

theorem refreshAuthToken_counterexample:
  "Token (options (snd (setupAuthForService
       (dev_env (stored_token [] 0) (Inl (ErrOther ''no refresh token''))
          (Inr (issued_token [] (Hour * 1))) (Inr issued_account)) world0))) =
     Some (issued_token [] (Hour * 1))
   \<and> RefreshToken (issued_token [] (Hour * 1)) = []
   \<and> calls (world_of (refreshAuthToken
       (dev_env (stored_token [] 0) (Inl (ErrOther ''no refresh token''))
          (Inr (issued_token [] (Hour * 1))) (Inr issued_account))
       [Hour * 1]
       (snd (setupAuthForService
          (dev_env (stored_token [] 0) (Inl (ErrOther ''no refresh token''))
             (Inr (issued_token [] (Hour * 1))) (Inr issued_account)) world0)))) =
     [Generate_call ''6ba7b810-9dad-11d1-80b4-00c04fd430c8''
        [auth_WithType ''service'', auth_WithScopes [''service'']],
      Token_call [auth_WithCredentials ''svc-1'' ''s3cret'', auth_WithExpiry Hour],
      Token_call [auth_WithToken [], auth_WithExpiry (Minute * 10)]]"
  by (simp add: flow_defs refreshAuthToken_def tick_def scenario_defs time_defs)

text \<open>
  Claim C3, amended.  The Refresh Loop does refresh work only if a Token is installed
  when the loop starts, whether or not that Token has a refresh token: with no Token
  installed the function returns at once, having made no call and changed nothing;
  with a Token installed it enters its loop of ticks and never returns.
\<close>

theorem refreshAuthToken_needs_token:
  "(Token (options w) = None \<longrightarrow> refreshAuthToken e nows w = Returned w)
   \<and> (calls (world_of (refreshAuthToken e nows w)) \<noteq> calls w \<longrightarrow>
        Token (options w) \<noteq> None)
   \<and> (\<forall>tok. Token (options w) = Some tok \<longrightarrow>
        refreshAuthToken e nows w = ticks e nows w
        \<and> (\<forall>w'. refreshAuthToken e nows w \<noteq> Returned w'))"
  by (auto simp add: refreshAuthToken_def ticks_not_Returned)

theorem refreshAuthToken_needs_token_witness:
  "refreshAuthToken
     (dev_env (stored_token [] 0) (Inl (ErrOther ''no refresh token''))
        (Inl ErrInvalidToken) (Inr issued_account))
     [0, Second * 15] world0 = Returned world0
   \<and> refreshAuthToken
       (dev_env (stored_token [] 0) (Inl (ErrOther ''no refresh token''))
          (Inl ErrInvalidToken) (Inr issued_account))
       [0, Second * 15] (holding (issued_token [] (Second * 30))) =
     Ticking
       ((holding (issued_token [] (Second * 30)))
          \<lparr>calls :=
             [Token_call [auth_WithToken [], auth_WithExpiry (Minute * 10)],
              Token_call [auth_WithToken [], auth_WithExpiry (Minute * 10)]]\<rparr>)"
proof -
  let ?e = "dev_env (stored_token [] 0) (Inl (ErrOther ''no refresh token''))
              (Inl ErrInvalidToken) (Inr issued_account)"
  have none: "Token (options world0) = None"
    by (simp add: world0_def)
  have some: "Token (options (holding (issued_token [] (Second * 30)))) =
      Some (issued_token [] (Second * 30))"
    by (simp add: holding_def)
  have run: "ticks ?e [0, Second * 15] (holding (issued_token [] (Second * 30))) =
      Ticking
       ((holding (issued_token [] (Second * 30)))
          \<lparr>calls :=
             [Token_call [auth_WithToken [], auth_WithExpiry (Minute * 10)],
              Token_call [auth_WithToken [], auth_WithExpiry (Minute * 10)]]\<rparr>)"
    by (simp add: tick_def auth_Token_def scenario_defs time_defs)
  from refreshAuthToken_needs_token [of world0 ?e "[0, Second * 15]"] none
  have first: "refreshAuthToken ?e [0, Second * 15] world0 = Returned world0"
    by blast
  from refreshAuthToken_needs_token
    [of "holding (issued_token [] (Second * 30))" ?e "[0, Second * 15]"] some
  have "refreshAuthToken ?e [0, Second * 15] (holding (issued_token [] (Second * 30))) =
      ticks ?e [0, Second * 15] (holding (issued_token [] (Second * 30)))"
    by blast
  with run first show ?thesis
    by simp
qed

text \<open>
  What the loop does when the regeneration fails too: the error of the second exchange is
  not tested, and the nil Token it came with is dereferenced.
\<close>

lemma tick_regeneration_fails:
  assumes "Token (options w) = Some tok"
    and "Unix (Expiry tok) \<le> Unix (Add now Minute)"
    and "provider_Token e (calls w)
           [auth_WithToken (RefreshToken tok), auth_WithExpiry (Minute * 10)] =
         Inl ErrInvalidToken"
    and "provider_Token e
           (calls w @ [Token_call [auth_WithToken (RefreshToken tok),
                                   auth_WithExpiry (Minute * 10)]])
           [auth_WithCredentials (ID (options w)) (Secret (options w)),
            auth_WithExpiry (Minute * 10)] = Inl err"
  shows "tick e now w =
           Panic (w\<lparr>calls := calls w @
             [Token_call [auth_WithToken (RefreshToken tok), auth_WithExpiry (Minute * 10)],
              Token_call [auth_WithCredentials (ID (options w)) (Secret (options w)),
                          auth_WithExpiry (Minute * 10)]]\<rparr>)"
  using assms by (simp add: tick_def auth_Token_def)

text \<open>
  Claim C1.  If the credential exchange that follows an \<open>ErrInvalidToken\<close> fails, the
  loop logs the failure, keeps the installed Token and tries again at the next tick,
  and never brings the process down.  The code does otherwise: with a Token due for
  refresh, a provider that answers the refresh-token exchange with \<open>ErrInvalidToken\<close>
  and the credential exchange with another error, the first tick panics, and the tick
  fifteen seconds later never runs.
\<close>

theorem refreshAuthToken_regeneration_failure_panics:
  "refreshAuthToken
     (dev_env (stored_token [] 0) (Inl ErrInvalidToken) (Inl (ErrOther ''unavailable''))
        (Inr issued_account))
     [0, Second * 15] (holding (issued_token ''r1'' (Second * 30))) =
     Panicked
       ((holding (issued_token ''r1'' (Second * 30)))
          \<lparr>calls :=
             [Token_call [auth_WithToken ''r1'', auth_WithExpiry (Minute * 10)],
              Token_call [auth_WithCredentials ''svc-1'' ''s3cret'',
                          auth_WithExpiry (Minute * 10)]]\<rparr>)"
  by (simp add: refreshAuthToken_def tick_def auth_Token_def scenario_defs time_defs)

end
